theory Spec2Isabelle
  imports Complex_Main
begin

section \<open>The motion manager of the video view\<close>

text \<open>
  The source is \<^verbatim>\<open>RCTMotionManager.m\<close> (the second document of \<^verbatim>\<open>src/Video.js\<close>): it turns
  the gravity vector of the device into a scale-and-rotate transform of the video surface,
  with a lock that snaps the angle to one of two constants and an unlock animation.

  Conventions of the embedding:
  \<^item> a \<^verbatim>\<open>double\<close> is a \<^typ>\<open>real\<close>: rounding, infinities and NaN are left out;
  \<^item> the instance variables, the two \<^verbatim>\<open>__block\<close> variables of the sensor block and the
    parts of the platform the code talks to (the motion manager's subscription, the run
    loop's display links, the calls of the updates handler) are the fields of one record,
    and every method takes that record and returns the new one;
  \<^item> \<^verbatim>\<open>CACurrentMediaTime()\<close> is an argument \<open>now\<close> of the methods that read it.
\<close>

subsection \<open>Constants and the lock state\<close>

definition kMaxLockAngle :: real where
  "kMaxLockAngle = - 0.209"

definition kMinLockAngle :: real where
  "kMinLockAngle = - 6.074"

datatype RCTMotionManagerState =
    RCTMotionManagerStateFree
  | RCTMotionManagerStateLocked
  | RCTMotionManagerStateUnlocking

definition midLockAngle :: real where
  "midLockAngle = (kMinLockAngle + kMaxLockAngle) / 2.0"

definition rotationWithLockState :: "RCTMotionManagerState \<Rightarrow> real \<Rightarrow> real" where
  "rotationWithLockState lockState' rawRotaton =
     (if lockState' = RCTMotionManagerStateLocked then
        (if rawRotaton > kMinLockAngle \<and> rawRotaton \<le> midLockAngle then kMinLockAngle
         else if rawRotaton > midLockAngle \<and> rawRotaton < kMaxLockAngle then kMaxLockAngle
         else rawRotaton)
      else rawRotaton)"

subsection \<open>Library functions\<close>

text \<open>
  \<^verbatim>\<open>atan2(y, x)\<close> of the C library on the reals: the angle of the point \<open>(x, y)\<close>, in
  \<open>(-\<pi>, \<pi>]\<close>, and \<open>0\<close> at the origin. \<^verbatim>\<open>exp2\<close> is \<open>2 powr _\<close>, \<^verbatim>\<open>fabs\<close> is \<open>abs\<close>,
  \<^verbatim>\<open>M_PI\<close> is \<open>pi\<close>.
\<close>

definition atan2 :: "real \<Rightarrow> real \<Rightarrow> real" where
  "atan2 y x =
     (if 0 < x then arctan (y / x)
      else if x < 0 then (if 0 \<le> y then arctan (y / x) + pi else arctan (y / x) - pi)
      else if 0 < y then pi / 2
      else if y < 0 then - (pi / 2)
      else 0)"

definition exp2 :: "real \<Rightarrow> real" where
  "exp2 v = 2 powr v"

subsection \<open>Data\<close>

record CMAcceleration =
  gravity_x :: real
  gravity_y :: real
  gravity_z :: real

text \<open>
  A \<^verbatim>\<open>CGAffineTransform\<close> built by \<^verbatim>\<open>CGAffineTransformMakeScale\<close> and
  \<^verbatim>\<open>CGAffineTransformRotate\<close> is kept as the scale factors and the angle it was built from
  (the spec's \<open>AffineTransform\<close>).
\<close>

record CGAffineTransform =
  scaleX :: real
  scaleY :: real
  rotation :: real

definition CGAffineTransformMakeScale :: "real \<Rightarrow> real \<Rightarrow> CGAffineTransform" where
  "CGAffineTransformMakeScale sx sy = \<lparr>scaleX = sx, scaleY = sy, rotation = 0\<rparr>"

definition CGAffineTransformRotate :: "CGAffineTransform \<Rightarrow> real \<Rightarrow> CGAffineTransform" where
  "CGAffineTransformRotate t angle = t\<lparr>rotation := rotation t + angle\<rparr>"

text \<open>
  The fields \<open>scaler\<close> to \<open>updatesHandler\<close> are the instance variables. \<open>scaler\<close> is
  \<^verbatim>\<open>get_scaleWithDouble:...\<close> of the \<^verbatim>\<open>OvalCalculator\<close> in fit mode, a class outside the
  source: it is a parameter of the model. \<open>framelessCounter\<close> is the list of the angles
  recorded so far; \<open>updatesHandler\<close> tells whether a handler is set (not \<^verbatim>\<open>nil\<close>); an
  \<open>animatorSampler\<close> is the number of a display link.

  The other fields are the surroundings: \<open>lastX\<close> and \<open>lastY\<close> are the \<^verbatim>\<open>__block\<close>
  variables of the sensor block; \<open>motionUpdates\<close> tells whether the motion manager delivers
  to that block; \<open>displayLinks\<close> are the display links the run loop still fires;
  \<open>nextLink\<close> numbers the next display link; \<open>delivered\<close> is the list of the transforms the
  handler has been called with, oldest first.
\<close>

record RCTMotionManager =
  scaler :: "real \<Rightarrow> real \<Rightarrow> real \<Rightarrow> real \<Rightarrow> real \<Rightarrow> real"
  videoWidth :: real
  videoHeight :: real
  viewWidth :: real
  viewHeight :: real
  lockState :: RCTMotionManagerState
  animatorSampler :: "nat option"
  animationStartTime :: real
  initialRotationWhenUnlocking :: real
  rotationDeltaForUnlocking :: real
  framelessCounter :: "real list"
  updatesHandler :: bool
  lastX :: real
  lastY :: real
  motionUpdates :: bool
  displayLinks :: "nat list"
  nextLink :: nat
  delivered :: "CGAffineTransform list"

subsection \<open>Methods\<close>

text \<open>
  The instance variables start at zero (\<open>Free\<close> is the first value of the enumeration).
  The block variables do not exist before the updates are started, which sets them.
\<close>

definition initWithVideoWidth ::
  "(real \<Rightarrow> real \<Rightarrow> real \<Rightarrow> real \<Rightarrow> real \<Rightarrow> real) \<Rightarrow> real \<Rightarrow> real \<Rightarrow> real \<Rightarrow> real
     \<Rightarrow> RCTMotionManager" where
  "initWithVideoWidth sc videoWidth' videoHeight' viewWidth' viewHeight' =
     \<lparr>scaler = sc,
      videoWidth = videoWidth', videoHeight = videoHeight',
      viewWidth = viewWidth', viewHeight = viewHeight',
      lockState = RCTMotionManagerStateFree,
      animatorSampler = None,
      animationStartTime = 0,
      initialRotationWhenUnlocking = 0,
      rotationDeltaForUnlocking = 0,
      framelessCounter = [],
      updatesHandler = False,
      lastX = - 1, lastY = - 1,
      motionUpdates = False,
      displayLinks = [],
      nextLink = 0,
      delivered = []\<rparr>"

definition transformWithRotation :: "RCTMotionManager \<Rightarrow> real \<Rightarrow> CGAffineTransform" where
  "transformWithRotation s rot =
     (let scale = scaler s (viewWidth s) (viewHeight s) (videoWidth s) (videoHeight s) rot;
          transform = CGAffineTransformMakeScale scale scale
      in CGAffineTransformRotate transform rot)"

definition isFlatWithGravity :: "CMAcceleration \<Rightarrow> bool" where
  "isFlatWithGravity gravity \<longleftrightarrow> \<bar>gravity_x gravity\<bar> < 0.2 \<and> \<bar>gravity_y gravity\<bar> < 0.2"

definition minDecay :: real where
  "minDecay = 0.15"

definition decay :: "CMAcceleration \<Rightarrow> real" where
  "decay gravity = minDecay + \<bar>gravity_x gravity\<bar> * (1 - minDecay)"

definition normalizedDisplayRotationDegrees :: "real \<Rightarrow> real" where
  "normalizedDisplayRotationDegrees displayRotation =
     (if displayRotation < 0 then (displayRotation + 2 * pi) / pi * 180.0
      else displayRotation / pi * 180.0)"

definition startDeviceMotionUpdatesWithHandler :: "bool \<Rightarrow> RCTMotionManager \<Rightarrow> RCTMotionManager" where
  "startDeviceMotionUpdatesWithHandler handler s =
     s\<lparr>updatesHandler := handler, lastX := - 1, lastY := - 1, motionUpdates := True\<rparr>"

text \<open>
  The body of the block given to the motion manager, run on one device motion (\<open>None\<close> is a
  \<^verbatim>\<open>nil\<close> motion). The manager itself is alive, so the weak reference is not \<^verbatim>\<open>nil\<close>.
\<close>

definition motionBlock :: "CMAcceleration option \<Rightarrow> RCTMotionManager \<Rightarrow> RCTMotionManager" where
  "motionBlock motion s =
     (if lockState s = RCTMotionManagerStateUnlocking then s
      else case motion of
        None \<Rightarrow> s
      | Some gravity \<Rightarrow>
          if isFlatWithGravity gravity then s
          else
            let d = decay gravity;
                lastX' = gravity_x gravity * d + lastX s * (1 - d);
                lastY' = gravity_y gravity * d + lastY s * (1 - d);
                rawRotation = atan2 lastX' lastY' - pi;
                displayRotation = rotationWithLockState (lockState s) rawRotation;
                s1 = s\<lparr>lastX := lastX', lastY := lastY',
                       initialRotationWhenUnlocking := displayRotation,
                       rotationDeltaForUnlocking := rawRotation - displayRotation,
                       framelessCounter :=
                         framelessCounter s @ [normalizedDisplayRotationDegrees displayRotation]\<rparr>
            in if updatesHandler s
               then s1\<lparr>delivered := delivered s1 @ [transformWithRotation s1 displayRotation]\<rparr>
               else s1)"

definition getZeroRotationTransform :: "RCTMotionManager \<Rightarrow> CGAffineTransform" where
  "getZeroRotationTransform s = transformWithRotation s 0"

definition stopDeviceMotionUpdates :: "RCTMotionManager \<Rightarrow> RCTMotionManager" where
  "stopDeviceMotionUpdates s = s\<lparr>motionUpdates := False\<rparr>"

definition lock :: "RCTMotionManager \<Rightarrow> RCTMotionManager" where
  "lock s = s\<lparr>lockState := RCTMotionManagerStateLocked\<rparr>"

definition unLock :: "real \<Rightarrow> RCTMotionManager \<Rightarrow> RCTMotionManager" where
  "unLock now s =
     s\<lparr>lockState := RCTMotionManagerStateUnlocking,
       animationStartTime := now,
       animatorSampler := Some (nextLink s),
       displayLinks := displayLinks s @ [nextLink s],
       nextLink := Suc (nextLink s)\<rparr>"

definition springAnimationFactorWithTimeElapsed :: "real \<Rightarrow> real" where
  "springAnimationFactorWithTimeElapsed timeElapsed =
     - exp2 (- 6.0 * timeElapsed) / 2.0
       * (- 2.0 * exp2 (6.0 * timeElapsed) + sin (12.0 * timeElapsed) + 2.0 * cos (12.0 * timeElapsed))"

definition sampleAnimator :: "nat \<Rightarrow> real \<Rightarrow> RCTMotionManager \<Rightarrow> RCTMotionManager" where
  "sampleAnimator sampler now s =
     (let timeElapsed = now - animationStartTime s;
          factor = springAnimationFactorWithTimeElapsed timeElapsed;
          rot = initialRotationWhenUnlocking s + rotationDeltaForUnlocking s * factor;
          s1 = (if updatesHandler s
                then s\<lparr>delivered := delivered s @ [transformWithRotation s rot]\<rparr>
                else s)
      in if timeElapsed > 1.0
         then s1\<lparr>displayLinks := removeAll sampler (displayLinks s1),
                 lockState := RCTMotionManagerStateFree\<rparr>
         else s1)"

subsection \<open>The surroundings\<close>

text \<open>
  What can happen to a manager: a call of one of its methods, a device motion that the
  motion manager has for its block (run only while the updates are on), or a frame on
  which the run loop fires a display link (run only while that link is not invalidated).
\<close>

datatype event =
    Start bool
  | Stop
  | Lock
  | UnLock real
  | DeviceMotion "CMAcceleration option"
  | DisplayLink nat real

fun step :: "event \<Rightarrow> RCTMotionManager \<Rightarrow> RCTMotionManager" where
  "step (Start handler) s = startDeviceMotionUpdatesWithHandler handler s"
| "step Stop s = stopDeviceMotionUpdates s"
| "step Lock s = lock s"
| "step (UnLock now) s = unLock now s"
| "step (DeviceMotion motion) s = (if motionUpdates s then motionBlock motion s else s)"
| "step (DisplayLink link now) s =
     (if link \<in> set (displayLinks s) then sampleAnimator link now s else s)"

definition run :: "event list \<Rightarrow> RCTMotionManager \<Rightarrow> RCTMotionManager" where
  "run es s = fold step es s"

subsection \<open>The transform builder of the specification\<close>

text \<open>
  The specification's \<open>TransformBuilder\<close> in its own words: it fails fast with
  \<open>InvalidDimensions\<close> on a zero or negative width or height. It is compared below with
  \<open>transformWithRotation\<close>, the builder of the source.
\<close>

datatype error = InvalidDimensions

definition build_spec :: "RCTMotionManager \<Rightarrow> real \<Rightarrow> error + CGAffineTransform" where
  "build_spec s rot =
     (if viewWidth s \<le> 0 \<or> viewHeight s \<le> 0 \<or> videoWidth s \<le> 0 \<or> videoHeight s \<le> 0
      then Inl InvalidDimensions
      else Inr (transformWithRotation s rot))"

subsection \<open>Events inside an unlock window\<close>

text \<open>
  The events that neither restart the animation begun at time \<open>t0\<close> nor end it: every
  event but \<open>unLock\<close> and a display link's frame later than \<open>t0 + 1\<close>.
\<close>

fun keepsAnimation :: "real \<Rightarrow> event \<Rightarrow> bool" where
  "keepsAnimation t0 (UnLock now) = False"
| "keepsAnimation t0 (DisplayLink link now) = (now - t0 \<le> 1.0)"
| "keepsAnimation t0 e = True"

subsection \<open>The last processed device motion of a run\<close>

text \<open>
  Observers for the statements about unlocking. \<open>insideWindow t0\<close> holds of the events of an
  undisturbed unlock window begun at \<open>t0\<close>: device motions, and frames of display links up
  to \<open>t0 + 1\<close>; no call of a method. \<open>sampleProcessed e s\<close> tells whether the event is a
  device motion that the block processes in \<open>s\<close> (delivered, state not \<open>Unlocking\<close>, not
  flat). \<open>rawRotationOf s\<close> is the raw angle of line 440 for the smoothed pair of \<open>s\<close>.
  \<open>lastSample es s\<close> is the raw and the displayed angle of the last device motion processed
  in the run of \<open>es\<close> from \<open>s\<close>, if there is one.
\<close>

fun insideWindow :: "real \<Rightarrow> event \<Rightarrow> bool" where
  "insideWindow t0 (DeviceMotion motion) = True"
| "insideWindow t0 (DisplayLink link now) = (now - t0 \<le> 1.0)"
| "insideWindow t0 e = False"

definition sampleProcessed :: "event \<Rightarrow> RCTMotionManager \<Rightarrow> bool" where
  "sampleProcessed e s =
     (case e of
        DeviceMotion (Some gravity) \<Rightarrow>
          motionUpdates s \<and> lockState s \<noteq> RCTMotionManagerStateUnlocking
            \<and> \<not> isFlatWithGravity gravity
      | _ \<Rightarrow> False)"

definition rawRotationOf :: "RCTMotionManager \<Rightarrow> real" where
  "rawRotationOf s = atan2 (lastX s) (lastY s) - pi"

fun lastSample :: "event list \<Rightarrow> RCTMotionManager \<Rightarrow> (real \<times> real) option" where
  "lastSample [] s = None"
| "lastSample (e # es) s =
     (case lastSample es (step e s) of
        Some angles \<Rightarrow> Some angles
      | None \<Rightarrow>
          if sampleProcessed e s
          then Some (rawRotationOf (step e s),
                     rotationWithLockState (lockState s) (rawRotationOf (step e s)))
          else None)"

subsection \<open>Concrete inputs\<close>

text \<open>
  A manager for the sizes of the specification's first scenario (a 1280 x 720 video in a
  390 x 200 view), with a calculator that answers 1 for every input in the place of the
  \<^verbatim>\<open>OvalCalculator\<close>, and four gravity samples. The general theorems are
  instantiated at these inputs.
\<close>

definition exampleScaler :: "real \<Rightarrow> real \<Rightarrow> real \<Rightarrow> real \<Rightarrow> real \<Rightarrow> real" where
  "exampleScaler viewW viewH videoW videoH rot = 1"

definition exampleManager :: RCTMotionManager where
  "exampleManager = initWithVideoWidth exampleScaler 1280 720 390 200"

definition tiltRight :: CMAcceleration where
  "tiltRight = \<lparr>gravity_x = 1, gravity_y = 0, gravity_z = 0\<rparr>"

definition tiltLeft :: CMAcceleration where
  "tiltLeft = \<lparr>gravity_x = - 1, gravity_y = 0, gravity_z = 0\<rparr>"

definition upright :: CMAcceleration where
  "upright = \<lparr>gravity_x = 0, gravity_y = 1, gravity_z = 0\<rparr>"

definition lyingFlat :: CMAcceleration where
  "lyingFlat = \<lparr>gravity_x = 0.1, gravity_y = 0.1, gravity_z = - 0.99\<rparr>"

lemmas example_defs =
  exampleManager_def initWithVideoWidth_def exampleScaler_def tiltRight_def tiltLeft_def
  upright_def lyingFlat_def

lemmas method_defs =
  startDeviceMotionUpdatesWithHandler_def stopDeviceMotionUpdates_def lock_def unLock_def
  run_def

section \<open>Auxiliary facts\<close>

subsection \<open>Angles\<close>

lemma lock_angles_order: "kMinLockAngle < midLockAngle \<and> midLockAngle < kMaxLockAngle"
  by (simp add: kMinLockAngle_def kMaxLockAngle_def midLockAngle_def)


lemma sin_upper: "0 \<le> x \<Longrightarrow> sin x \<le> x - x^3/6 + x^5/120" for x :: real
proof -
  assume x: "0 \<le> x"
  have "(\<Sum>m<5. sin_coeff m * x ^ m) = x - x^3/6"
    by (simp add: eval_nat_numeral sin_coeff_Suc cos_coeff_Suc)
  moreover have "inverse (fact 5) * \<bar>x\<bar> ^ 5 = x^5/120"
    using x by (simp add: fact_numeral)
  ultimately show ?thesis
    using Maclaurin_sin_bound[of x 5] by (simp only: abs_le_iff) linarith
qed

lemma pi_gt_306: "3.06 < pi"
proof -
  have "sin (0.51::real) \<le> 0.51 - 0.51^3/6 + 0.51^5/120"
    by (rule sin_upper) simp
  also have "\<dots> < 1/2" by (simp add: power3_eq_cube eval_nat_numeral)
  also have "\<dots> = sin (pi/6)" by (simp add: sin_30)
  finally have "sin (0.51::real) < sin (pi/6)" .
  moreover have "- (pi/2) \<le> 0.51" "0.51 \<le> pi/2" "-(pi/2) \<le> pi/6" "pi/6 \<le> pi/2"
    using pi_ge_two by simp_all
  ultimately have "0.51 < pi/6" using sin_mono_less_eq by blast
  then show ?thesis by simp
qed



subsection \<open>The spring curve\<close>

lemma spring_alt:
  "springAnimationFactorWithTimeElapsed t = 1 - exp2 (- 6 * t) * (sin (12 * t) + 2 * cos (12 * t)) / 2"
proof -
  have "exp2 (- 6 * t) * exp2 (6 * t) = 1"
    unfolding exp2_def by (simp add: powr_add [symmetric])
  then show ?thesis
    unfolding springAnimationFactorWithTimeElapsed_def
    by (simp add: algebra_simps)
qed

lemma ring_ineq: "s\<^sup>2 + c\<^sup>2 = 1 \<Longrightarrow> (s + 2 * c)\<^sup>2 \<le> 5" for s c :: real
proof -
  assume u: "s\<^sup>2 + c\<^sup>2 = 1"
  have lin: "A = 5 * U - B \<Longrightarrow> 0 \<le> B \<Longrightarrow> U = 1 \<Longrightarrow> A \<le> 5" for A B U :: real
    by simp
  have "(s + 2 * c)\<^sup>2 = 5 * (s\<^sup>2 + c\<^sup>2) - (2 * s - c)\<^sup>2"
    by (simp add: power2_eq_square algebra_simps)
  moreover have "0 \<le> (2 * s - c)\<^sup>2" by simp
  ultimately show ?thesis using u by (rule lin)
qed

lemma sin_cos_bound: "\<bar>sin a + 2 * cos a\<bar> \<le> 9 / 4" for a :: real
proof -
  have "(sin a + 2 * cos a)\<^sup>2 \<le> 5" by (rule ring_ineq) simp
  then have "(sin a + 2 * cos a)\<^sup>2 \<le> (9 / 4)\<^sup>2"
    by (simp add: power2_eq_square)
  then show ?thesis
    using abs_le_square_iff [of "sin a + 2 * cos a" "9 / 4"] by simp
qed

lemma exp2_mono_window: "3 / 10 \<le> t \<Longrightarrow> exp2 (- 6 * t) \<le> exp2 (- (9 / 5))"
  unfolding exp2_def by (rule powr_mono) simp_all

lemma exp2_fifth: "exp2 (- (9 / 5)) ^ 5 = 1 / 512"
proof -
  have "exp2 (- (9 / 5)) ^ 5 = (2 powr (- (9 / 5))) powr (real 5)"
    unfolding exp2_def by (rule powr_realpow [symmetric]) simp
  also have "\<dots> = 2 powr (- (9 / 5) * real 5)" by (rule powr_powr)
  also have "\<dots> = 2 powr (- real 9)" by simp
  also have "\<dots> = inverse (2 powr real 9)" by (rule powr_minus)
  also have "\<dots> = inverse (2 ^ 9)" by (simp only: powr_realpow [of 2 9, OF zero_less_numeral])
  also have "\<dots> = 1 / 512" by simp
  finally show ?thesis .
qed

lemma fifth_root_bound: "c ^ 5 = 1 / 512 \<Longrightarrow> c \<le> 29 / 100" for c :: real
proof (rule ccontr)
  assume c: "c ^ 5 = 1 / 512" and "\<not> c \<le> 29 / 100"
  then have "29 / 100 < c" by simp
  then have "(29 / 100) ^ 5 < c ^ 5"
    by (rule power_strict_mono) simp_all
  moreover have "(29 / 100 :: real) ^ 5 = 20511149 / 10000000000" by (simp add: power_divide)
  ultimately show False using c by simp
qed

lemma spring_window: "3 / 10 \<le> t \<Longrightarrow> \<bar>springAnimationFactorWithTimeElapsed t - 1\<bar> \<le> 1 / 3"
proof -
  assume t: "3 / 10 \<le> t"
  define e where "e = exp2 (- 6 * t)"
  define w where "w = sin (12 * t) + 2 * cos (12 * t)"
  have e0: "0 \<le> e" by (simp add: e_def exp2_def)
  have e1: "e \<le> 29 / 100"
    using exp2_mono_window [OF t] fifth_root_bound [OF exp2_fifth] by (simp add: e_def)
  have w1: "\<bar>w\<bar> \<le> 9 / 4" unfolding w_def by (rule sin_cos_bound)
  have "springAnimationFactorWithTimeElapsed t - 1 = - (e * w / 2)"
    by (simp add: spring_alt e_def w_def)
  then have "\<bar>springAnimationFactorWithTimeElapsed t - 1\<bar> = e * \<bar>w\<bar> / 2"
    using e0 by (simp add: abs_mult)
  also have "e * \<bar>w\<bar> \<le> (29 / 100) * (9 / 4)"
    using e1 w1 e0 by (intro mult_mono) simp_all
  finally show ?thesis by simp
qed

subsection \<open>The methods, field by field\<close>

lemma motionBlock_unlocking: "lockState s = RCTMotionManagerStateUnlocking \<Longrightarrow> motionBlock m s = s"
  by (simp add: motionBlock_def)

lemma motionBlock_keeps:
  "lockState (motionBlock m s) = lockState s \<and>
   displayLinks (motionBlock m s) = displayLinks s \<and>
   animationStartTime (motionBlock m s) = animationStartTime s \<and>
   updatesHandler (motionBlock m s) = updatesHandler s \<and>
   motionUpdates (motionBlock m s) = motionUpdates s"
  by (simp add: motionBlock_def Let_def split: option.split)

lemma sampleAnimator_keeps:
  "initialRotationWhenUnlocking (sampleAnimator k t s) = initialRotationWhenUnlocking s \<and>
   rotationDeltaForUnlocking (sampleAnimator k t s) = rotationDeltaForUnlocking s \<and>
   animationStartTime (sampleAnimator k t s) = animationStartTime s \<and>
   lastX (sampleAnimator k t s) = lastX s \<and> lastY (sampleAnimator k t s) = lastY s"
  by (simp add: sampleAnimator_def Let_def)

lemma sampleAnimator_within:
  "t - animationStartTime s \<le> 1 \<Longrightarrow>
     lockState (sampleAnimator k t s) = lockState s \<and>
     displayLinks (sampleAnimator k t s) = displayLinks s"
  by (simp add: sampleAnimator_def Let_def)

lemma sampleAnimator_finished:
  "1 < t - animationStartTime s \<Longrightarrow>
     lockState (sampleAnimator k t s) = RCTMotionManagerStateFree \<and>
     displayLinks (sampleAnimator k t s) = removeAll k (displayLinks s)"
  by (simp add: sampleAnimator_def Let_def)

lemma sampleAnimator_delivers:
  "updatesHandler s \<Longrightarrow>
     delivered (sampleAnimator k t s) =
       delivered s @ [transformWithRotation s
         (initialRotationWhenUnlocking s + rotationDeltaForUnlocking s
            * springAnimationFactorWithTimeElapsed (t - animationStartTime s))]"
  by (simp add: sampleAnimator_def Let_def)

lemma transformWithRotation_rotation: "rotation (transformWithRotation s rot) = rot"
  by (simp add: transformWithRotation_def CGAffineTransformMakeScale_def CGAffineTransformRotate_def
        Let_def)

lemma transformWithRotation_frame:
  "scaler s' = scaler s \<Longrightarrow> viewWidth s' = viewWidth s \<Longrightarrow> viewHeight s' = viewHeight s \<Longrightarrow>
   videoWidth s' = videoWidth s \<Longrightarrow> videoHeight s' = videoHeight s \<Longrightarrow>
     transformWithRotation s' rot = transformWithRotation s rot"
  by (simp add: transformWithRotation_def)

lemma motionBlock_processed:
  assumes "lockState s \<noteq> RCTMotionManagerStateUnlocking" "\<not> isFlatWithGravity g"
  shows "initialRotationWhenUnlocking (motionBlock (Some g) s)
           = rotationWithLockState (lockState s)
               (atan2 (lastX (motionBlock (Some g) s)) (lastY (motionBlock (Some g) s)) - pi)"
    and "rotationDeltaForUnlocking (motionBlock (Some g) s)
           = (atan2 (lastX (motionBlock (Some g) s)) (lastY (motionBlock (Some g) s)) - pi)
             - initialRotationWhenUnlocking (motionBlock (Some g) s)"
    and "updatesHandler s \<Longrightarrow> delivered (motionBlock (Some g) s)
           = delivered s @ [transformWithRotation s (initialRotationWhenUnlocking (motionBlock (Some g) s))]"
    and "framelessCounter (motionBlock (Some g) s)
           = framelessCounter s @ [normalizedDisplayRotationDegrees (initialRotationWhenUnlocking (motionBlock (Some g) s))]"
  using assms by (simp_all add: motionBlock_def Let_def transformWithRotation_def)

lemma stored_angles_written_by_samples_only:
  "initialRotationWhenUnlocking (step e s) \<noteq> initialRotationWhenUnlocking s
     \<or> rotationDeltaForUnlocking (step e s) \<noteq> rotationDeltaForUnlocking s \<Longrightarrow>
   \<exists>g. e = DeviceMotion (Some g) \<and> \<not> isFlatWithGravity g \<and> motionUpdates s
         \<and> lockState s \<noteq> RCTMotionManagerStateUnlocking"
  by (cases e)
     (auto simp add: method_defs motionBlock_def sampleAnimator_def Let_def
        split: if_splits option.splits)

lemma run_Nil: "run [] s = s"
  by (simp add: run_def)

lemma run_Cons: "run (e # es) s = run es (step e s)"
  by (simp add: run_def)

lemma run_motions_stopped:
  "\<not> motionUpdates s \<Longrightarrow> run (map DeviceMotion ms) s = s"
  by (induction ms) (simp_all add: run_Nil run_Cons)

lemma keepsAnimation_step:
  assumes "keepsAnimation (animationStartTime s) e"
  shows "animationStartTime (step e s) = animationStartTime s \<and>
         displayLinks (step e s) = displayLinks s \<and>
         (lockState s = RCTMotionManagerStateLocked \<longrightarrow> lockState (step e s) = RCTMotionManagerStateLocked)"
  using assms
  by (cases e)
     (simp_all add: method_defs motionBlock_keeps sampleAnimator_keeps sampleAnimator_within)

lemma keepsAnimation_run:
  "list_all (keepsAnimation (animationStartTime s)) es \<Longrightarrow>
   lockState s = RCTMotionManagerStateLocked \<Longrightarrow>
     animationStartTime (run es s) = animationStartTime s \<and>
     displayLinks (run es s) = displayLinks s \<and>
     lockState (run es s) = RCTMotionManagerStateLocked"
proof (induction es arbitrary: s)
  case Nil
  then show ?case by (simp add: run_Nil)
next
  case (Cons e es)
  from Cons.prems have e: "keepsAnimation (animationStartTime s) e"
    and es: "list_all (keepsAnimation (animationStartTime s)) es" by simp_all
  note st = keepsAnimation_step [OF e]
  from st Cons.prems(2) have l: "lockState (step e s) = RCTMotionManagerStateLocked" by simp
  from es st have "list_all (keepsAnimation (animationStartTime (step e s))) es" by simp
  from Cons.IH [OF this l] st show ?case by (simp add: run_Cons)
qed


subsection \<open>The concrete inputs evaluated\<close>

lemma tiltRight_sample:
  "lockState s \<noteq> RCTMotionManagerStateUnlocking \<Longrightarrow>
     lastX (motionBlock (Some tiltRight) s) = 1 \<and> lastY (motionBlock (Some tiltRight) s) = 0 \<and>
     nextLink (motionBlock (Some tiltRight) s) = nextLink s"
  by (simp add: motionBlock_def Let_def isFlatWithGravity_def decay_def minDecay_def tiltRight_def)

lemma tiltLeft_sample:
  "lockState s \<noteq> RCTMotionManagerStateUnlocking \<Longrightarrow>
     lastX (motionBlock (Some tiltLeft) s) = - 1 \<and> lastY (motionBlock (Some tiltLeft) s) = 0"
  by (simp add: motionBlock_def Let_def isFlatWithGravity_def decay_def minDecay_def tiltLeft_def)

lemma atan2_axes: "atan2 1 0 = pi / 2 \<and> atan2 (- 1) 0 = - (pi / 2)"
  by (simp add: atan2_def)

lemma quarter_turn_locked:
  "rotationWithLockState RCTMotionManagerStateLocked (- (pi / 2)) = kMaxLockAngle"
  using pi_ge_two pi_less_4
  by (simp add: rotationWithLockState_def kMinLockAngle_def kMaxLockAngle_def midLockAngle_def)

subsection \<open>Runs\<close>

lemma run_motions_unlocking:
  "lockState s = RCTMotionManagerStateUnlocking \<Longrightarrow> run (map DeviceMotion ms) s = s"
  by (induction ms) (simp_all add: run_Nil run_Cons motionBlock_unlocking)

lemma step_DisplayLink_keeps:
  "lastX (step (DisplayLink k t) s) = lastX s \<and> lastY (step (DisplayLink k t) s) = lastY s \<and>
   initialRotationWhenUnlocking (step (DisplayLink k t) s) = initialRotationWhenUnlocking s \<and>
   rotationDeltaForUnlocking (step (DisplayLink k t) s) = rotationDeltaForUnlocking s"
  by (simp add: sampleAnimator_keeps)

lemma insideWindow_step:
  assumes "lockState s = RCTMotionManagerStateUnlocking"
    and "insideWindow (animationStartTime s) e"
  shows "step e s = s\<lparr>delivered := delivered (step e s)\<rparr>"
  using assms
  by (cases e) (simp_all add: motionBlock_unlocking sampleAnimator_def Let_def)

lemma insideWindow_run:
  "lockState s = RCTMotionManagerStateUnlocking \<Longrightarrow>
   list_all (insideWindow (animationStartTime s)) ws \<Longrightarrow>
     run ws s = s\<lparr>delivered := delivered (run ws s)\<rparr>"
proof (induction ws arbitrary: s)
  case Nil
  then show ?case by (simp add: run_Nil)
next
  case (Cons e ws)
  from Cons.prems have e: "insideWindow (animationStartTime s) e"
    and ws: "list_all (insideWindow (animationStartTime s)) ws" by simp_all
  note st = insideWindow_step [OF Cons.prems(1) e]
  have l: "lockState (step e s) = RCTMotionManagerStateUnlocking"
    by (subst st) (simp add: Cons.prems(1))
  have t: "animationStartTime (step e s) = animationStartTime s"
    by (subst st) simp
  from ws t have "list_all (insideWindow (animationStartTime (step e s))) ws" by simp
  from Cons.IH [OF l this] have "run ws (step e s)
      = (step e s)\<lparr>delivered := delivered (run ws (step e s))\<rparr>" .
  also have "\<dots> = s\<lparr>delivered := delivered (run ws (step e s))\<rparr>"
    by (subst st) simp
  finally show ?case by (simp add: run_Cons)
qed

lemma sampleProcessed_step:
  assumes "sampleProcessed e s"
  shows "initialRotationWhenUnlocking (step e s)
           = rotationWithLockState (lockState s) (rawRotationOf (step e s)) \<and>
         rotationDeltaForUnlocking (step e s)
           = rawRotationOf (step e s) - rotationWithLockState (lockState s) (rawRotationOf (step e s))"
proof -
  from assms obtain g where e: "e = DeviceMotion (Some g)" and m: "motionUpdates s"
    and l: "lockState s \<noteq> RCTMotionManagerStateUnlocking" and f: "\<not> isFlatWithGravity g"
    by (auto simp add: sampleProcessed_def split: event.splits option.splits)
  from motionBlock_processed(1,2) [OF l f] m show ?thesis
    by (simp add: e rawRotationOf_def)
qed

lemma not_sampleProcessed_step:
  assumes "\<not> sampleProcessed e s"
  shows "initialRotationWhenUnlocking (step e s) = initialRotationWhenUnlocking s \<and>
         rotationDeltaForUnlocking (step e s) = rotationDeltaForUnlocking s"
proof (rule ccontr)
  assume "\<not> ?thesis"
  then have "initialRotationWhenUnlocking (step e s) \<noteq> initialRotationWhenUnlocking s
      \<or> rotationDeltaForUnlocking (step e s) \<noteq> rotationDeltaForUnlocking s"
    by blast
  from stored_angles_written_by_samples_only [OF this]
  have "sampleProcessed e s" by (auto simp add: sampleProcessed_def)
  with assms show False by simp
qed

lemma lastSample_run:
  "(case lastSample es s of
      Some (rawRotation, displayRotation) \<Rightarrow>
        initialRotationWhenUnlocking (run es s) = displayRotation \<and>
        rotationDeltaForUnlocking (run es s) = rawRotation - displayRotation
    | None \<Rightarrow>
        initialRotationWhenUnlocking (run es s) = initialRotationWhenUnlocking s \<and>
        rotationDeltaForUnlocking (run es s) = rotationDeltaForUnlocking s)"
proof (induction es arbitrary: s)
  case Nil
  show ?case by (simp add: run_Nil)
next
  case (Cons e es)
  show ?case
  proof (cases "lastSample es (step e s)")
    case (Some p)
    with Cons.IH [of "step e s"] show ?thesis by (simp add: run_Cons)
  next
    case None
    with Cons.IH [of "step e s"]
    have keep: "initialRotationWhenUnlocking (run es (step e s)) = initialRotationWhenUnlocking (step e s)"
      "rotationDeltaForUnlocking (run es (step e s)) = rotationDeltaForUnlocking (step e s)"
      by simp_all
    show ?thesis
    proof (cases "sampleProcessed e s")
      case True
      with None keep sampleProcessed_step [OF True] show ?thesis by (simp add: run_Cons)
    next
      case False
      with None keep not_sampleProcessed_step [OF False] show ?thesis by (simp add: run_Cons)
    qed
  qed
qed

lemma three_quarter_turn_locked:
  "rotationWithLockState RCTMotionManagerStateLocked (- (pi / 2) - pi) = kMinLockAngle"
  using pi_gt_306 pi_less_4
  by (simp add: rotationWithLockState_def kMinLockAngle_def kMaxLockAngle_def midLockAngle_def)

lemma spring_half_positive: "0 < springAnimationFactorWithTimeElapsed (1 / 2)"
proof -
  have "\<bar>springAnimationFactorWithTimeElapsed (1 / 2) - 1\<bar> \<le> 1 / 3"
    by (rule spring_window) simp
  then show ?thesis by linarith
qed

lemma lockedManager_tiltRight:
  "run [Start True, Lock, DeviceMotion (Some tiltRight)] exampleManager
     = motionBlock (Some tiltRight) (lock (startDeviceMotionUpdatesWithHandler True exampleManager)) \<and>
   lockState (motionBlock (Some tiltRight) (lock (startDeviceMotionUpdatesWithHandler True exampleManager)))
     = RCTMotionManagerStateLocked \<and>
   motionUpdates (motionBlock (Some tiltRight) (lock (startDeviceMotionUpdatesWithHandler True exampleManager))) \<and>
   updatesHandler (motionBlock (Some tiltRight) (lock (startDeviceMotionUpdatesWithHandler True exampleManager))) \<and>
   displayLinks (motionBlock (Some tiltRight) (lock (startDeviceMotionUpdatesWithHandler True exampleManager)))
     = [] \<and>
   nextLink (motionBlock (Some tiltRight) (lock (startDeviceMotionUpdatesWithHandler True exampleManager)))
     = 0 \<and>
   initialRotationWhenUnlocking
       (motionBlock (Some tiltRight) (lock (startDeviceMotionUpdatesWithHandler True exampleManager)))
     = kMaxLockAngle \<and>
   rotationDeltaForUnlocking
       (motionBlock (Some tiltRight) (lock (startDeviceMotionUpdatesWithHandler True exampleManager)))
     = - (pi / 2) - kMaxLockAngle"
proof -
  define s where "s = lock (startDeviceMotionUpdatesWithHandler True exampleManager)"
  have st: "lockState s = RCTMotionManagerStateLocked" "motionUpdates s" "updatesHandler s"
    "displayLinks s = []" "nextLink s = 0"
    by (simp_all add: s_def example_defs method_defs)
  have h1: "lockState s \<noteq> RCTMotionManagerStateUnlocking" by (simp add: st)
  have h2: "\<not> isFlatWithGravity tiltRight" by (simp add: isFlatWithGravity_def tiltRight_def)
  have r: "run [Start True, Lock, DeviceMotion (Some tiltRight)] exampleManager
      = motionBlock (Some tiltRight) s"
    using st(2) by (simp add: run_def s_def)
  have i: "initialRotationWhenUnlocking (motionBlock (Some tiltRight) s) = kMaxLockAngle"
    using motionBlock_processed(1) [OF h1 h2]
    by (simp add: tiltRight_sample [OF h1] atan2_axes quarter_turn_locked st)
  have d: "rotationDeltaForUnlocking (motionBlock (Some tiltRight) s) = - (pi / 2) - kMaxLockAngle"
    using motionBlock_processed(2) [OF h1 h2] i
    by (simp add: tiltRight_sample [OF h1] atan2_axes)
  from r i d motionBlock_keeps [of "Some tiltRight" s] tiltRight_sample [OF h1] st
  show ?thesis unfolding s_def [symmetric] by simp
qed

section \<open>The claims\<close>

subsection \<open>C1: quantization of the displayed angle\<close>

text \<open>
  C1. In state \<open>Locked\<close>, with \<open>midLockAngle = (kMinLockAngle + kMaxLockAngle) / 2\<close>: a raw
  angle \<open>r\<close> with \<open>kMinLockAngle < r \<le> midLockAngle\<close> is displayed as \<open>kMinLockAngle\<close>; one
  with \<open>midLockAngle < r < kMaxLockAngle\<close> as \<open>kMaxLockAngle\<close>; any other one (at one of the
  two lock angles, or outside the band) as \<open>r\<close> itself. In every state other than \<open>Locked\<close>
  the displayed angle is \<open>r\<close>.
\<close>

theorem rotationWithLockState_quantizes:
  "(kMinLockAngle < r \<and> r \<le> midLockAngle \<longrightarrow>
      rotationWithLockState RCTMotionManagerStateLocked r = kMinLockAngle) \<and>
   (midLockAngle < r \<and> r < kMaxLockAngle \<longrightarrow>
      rotationWithLockState RCTMotionManagerStateLocked r = kMaxLockAngle) \<and>
   (r \<le> kMinLockAngle \<or> kMaxLockAngle \<le> r \<longrightarrow>
      rotationWithLockState RCTMotionManagerStateLocked r = r) \<and>
   (st \<noteq> RCTMotionManagerStateLocked \<longrightarrow> rotationWithLockState st r = r) \<and>
   midLockAngle = (kMinLockAngle + kMaxLockAngle) / 2"
  using lock_angles_order
  by (auto simp add: rotationWithLockState_def midLockAngle_def)

theorem rotationWithLockState_quantizes_witness:
  "rotationWithLockState RCTMotionManagerStateLocked (- 4) = - 6.074 \<and>
   rotationWithLockState RCTMotionManagerStateLocked (- 1) = - 0.209 \<and>
   rotationWithLockState RCTMotionManagerStateLocked (- 6.074) = - 6.074 \<and>
   rotationWithLockState RCTMotionManagerStateLocked (- 0.209) = - 0.209 \<and>
   rotationWithLockState RCTMotionManagerStateLocked (- 6.2) = - 6.2 \<and>
   rotationWithLockState RCTMotionManagerStateFree (- 4) = - 4"
  using rotationWithLockState_quantizes [of "- 4" RCTMotionManagerStateFree]
    rotationWithLockState_quantizes [of "- 1" RCTMotionManagerStateFree]
    rotationWithLockState_quantizes [of "- 6.074" RCTMotionManagerStateFree]
    rotationWithLockState_quantizes [of "- 0.209" RCTMotionManagerStateFree]
    rotationWithLockState_quantizes [of "- 6.2" RCTMotionManagerStateFree]
  by (simp add: kMinLockAngle_def kMaxLockAngle_def midLockAngle_def)

subsection \<open>C2: the update law of the smoother\<close>

text \<open>
  C2. The decay factor of a gravity sample is \<open>0.15 + |x| * (1 - 0.15)\<close>: it grows strictly
  with \<open>|x|\<close> and is \<open>0.15\<close> at \<open>x = 0\<close>. Starting the updates sets the smoothed pair to
  \<open>(-1, -1)\<close>. A sample that passes the flat guard (the guard is reached only when the state
  is not \<open>Unlocking\<close>) replaces each smoothed component by
  \<open>sample * d + smoothed * (1 - d)\<close>; so the first sample after the start is blended with
  \<open>-1\<close>.
\<close>

theorem smoother_update_law:
  "decay g = 0.15 + \<bar>gravity_x g\<bar> * (1 - 0.15) \<and>
   (decay g < decay g') = (\<bar>gravity_x g\<bar> < \<bar>gravity_x g'\<bar>) \<and>
   (gravity_x g = 0 \<longrightarrow> decay g = 0.15) \<and>
   lastX (startDeviceMotionUpdatesWithHandler h s) = - 1 \<and>
   lastY (startDeviceMotionUpdatesWithHandler h s) = - 1 \<and>
   (lockState s \<noteq> RCTMotionManagerStateUnlocking \<and> \<not> isFlatWithGravity g \<longrightarrow>
      lastX (motionBlock (Some g) s) = gravity_x g * decay g + lastX s * (1 - decay g) \<and>
      lastY (motionBlock (Some g) s) = gravity_y g * decay g + lastY s * (1 - decay g) \<and>
      lastX (motionBlock (Some g) (startDeviceMotionUpdatesWithHandler h s))
        = gravity_x g * decay g + (- 1) * (1 - decay g) \<and>
      lastY (motionBlock (Some g) (startDeviceMotionUpdatesWithHandler h s))
        = gravity_y g * decay g + (- 1) * (1 - decay g))"
proof -
  have law: "decay g = 0.15 + \<bar>gravity_x g\<bar> * (1 - 0.15)"
    by (simp add: decay_def minDecay_def)
  have mono: "(decay g < decay g') = (\<bar>gravity_x g\<bar> < \<bar>gravity_x g'\<bar>)"
    by (simp add: decay_def minDecay_def)
  have zero: "gravity_x g = 0 \<longrightarrow> decay g = 0.15"
    by (simp add: decay_def minDecay_def)
  have init: "lastX (startDeviceMotionUpdatesWithHandler h s) = - 1"
    "lastY (startDeviceMotionUpdatesWithHandler h s) = - 1"
    "lockState (startDeviceMotionUpdatesWithHandler h s) = lockState s"
    by (simp_all add: startDeviceMotionUpdatesWithHandler_def)
  have upd: "lastX (motionBlock (Some g) s') = gravity_x g * decay g + lastX s' * (1 - decay g) \<and>
      lastY (motionBlock (Some g) s') = gravity_y g * decay g + lastY s' * (1 - decay g)"
    if "lockState s' \<noteq> RCTMotionManagerStateUnlocking" "\<not> isFlatWithGravity g" for s'
    using that by (simp add: motionBlock_def Let_def)
  show ?thesis
    using law mono zero init upd [of s] upd [of "startDeviceMotionUpdatesWithHandler h s"]
    by (simp only:) blast
qed

theorem smoother_update_law_witness:
  "lockState exampleManager \<noteq> RCTMotionManagerStateUnlocking \<and> \<not> isFlatWithGravity upright \<and>
   decay upright = 0.15 \<and> decay upright < decay tiltRight \<and>
   lastX (motionBlock (Some upright) (startDeviceMotionUpdatesWithHandler True exampleManager))
     = - 0.85 \<and>
   lastY (motionBlock (Some upright) (startDeviceMotionUpdatesWithHandler True exampleManager))
     = - 0.7"
proof -
  have hyp: "lockState exampleManager \<noteq> RCTMotionManagerStateUnlocking \<and> \<not> isFlatWithGravity upright"
    by (simp add: example_defs isFlatWithGravity_def)
  have x: "gravity_x upright = 0" "gravity_y upright = 1" "gravity_x tiltRight = 1"
    by (simp_all add: example_defs)
  from smoother_update_law [of upright tiltRight True exampleManager] hyp
  have "decay upright = 0.15 \<and>
    (decay upright < decay tiltRight) = (\<bar>gravity_x upright\<bar> < \<bar>gravity_x tiltRight\<bar>) \<and>
    lastX (motionBlock (Some upright) (startDeviceMotionUpdatesWithHandler True exampleManager))
       = gravity_x upright * decay upright + (- 1) * (1 - decay upright) \<and>
    lastY (motionBlock (Some upright) (startDeviceMotionUpdatesWithHandler True exampleManager))
       = gravity_y upright * decay upright + (- 1) * (1 - decay upright)"
    using x(1) by blast
  then show ?thesis using hyp by (simp add: x)
qed

subsection \<open>C3: what unlock starts from, and the automatic release\<close>

text \<open>
  C3, as stated, makes the initial angle of the animation the last displayed angle before
  the call, fixed during the unlock window. Lock, the sample \<open>tiltRight\<close> and \<open>unLock\<close> at
  time \<open>0\<close> store the initial angle \<open>kMaxLockAngle\<close>. First, the frame at time \<open>1/2\<close>
  displays another angle, and an \<open>unLock\<close> called then still starts from the stored one.
  Second, a \<open>lock\<close> and the sample \<open>tiltLeft\<close> inside the window replace the stored angle
  while the display link is live.
\<close>

theorem unLock_initial_angle_counterexample:
  "initialRotationWhenUnlocking
       (run [Start True, Lock, DeviceMotion (Some tiltRight), UnLock 0, DisplayLink 0 (1 / 2),
             UnLock (1 / 2)] exampleManager)
     \<noteq> rotation (last (delivered
         (run [Start True, Lock, DeviceMotion (Some tiltRight), UnLock 0, DisplayLink 0 (1 / 2)]
            exampleManager))) \<and>
   initialRotationWhenUnlocking
       (run [Start True, Lock, DeviceMotion (Some tiltRight), UnLock 0, Lock,
             DeviceMotion (Some tiltLeft)] exampleManager)
     \<noteq> initialRotationWhenUnlocking
         (run [Start True, Lock, DeviceMotion (Some tiltRight), UnLock 0] exampleManager) \<and>
   0 \<in> set (displayLinks
       (run [Start True, Lock, DeviceMotion (Some tiltRight), UnLock 0, Lock,
             DeviceMotion (Some tiltLeft)] exampleManager))"
proof -
  define sT where "sT = run [Start True, Lock, DeviceMotion (Some tiltRight)] exampleManager"
  define sU where "sU = unLock 0 sT"
  note t = lockedManager_tiltRight [folded sT_def]
  have sT: "lockState sT = RCTMotionManagerStateLocked" "motionUpdates sT" "updatesHandler sT"
    "displayLinks sT = []" "nextLink sT = 0" "initialRotationWhenUnlocking sT = kMaxLockAngle"
    "rotationDeltaForUnlocking sT = - (pi / 2) - kMaxLockAngle"
    using t by (simp_all add: sT_def)
  have sU: "displayLinks sU = [0]" "updatesHandler sU" "animationStartTime sU = 0"
    "initialRotationWhenUnlocking sU = kMaxLockAngle"
    "rotationDeltaForUnlocking sU = - (pi / 2) - kMaxLockAngle" "motionUpdates sU"
    using sT by (simp_all add: sU_def unLock_def)
  have split1: "run ([Start True, Lock, DeviceMotion (Some tiltRight)] @ es) exampleManager
      = run es sT" for es
    by (simp add: run_def sT_def)
  have frame: "run [Start True, Lock, DeviceMotion (Some tiltRight), UnLock 0, DisplayLink 0 (1 / 2)]
      exampleManager = sampleAnimator 0 (1 / 2) sU"
    using split1 [of "[UnLock 0, DisplayLink 0 (1 / 2)]"] sU(1)
    by (simp add: run_def sU_def)
  have again: "run [Start True, Lock, DeviceMotion (Some tiltRight), UnLock 0, DisplayLink 0 (1 / 2),
      UnLock (1 / 2)] exampleManager = unLock (1 / 2) (sampleAnimator 0 (1 / 2) sU)"
    using split1 [of "[UnLock 0, DisplayLink 0 (1 / 2), UnLock (1 / 2)]"] sU(1)
    by (simp add: run_def sU_def)
  have shown: "rotation (last (delivered (sampleAnimator 0 (1 / 2) sU)))
      = kMaxLockAngle + (- (pi / 2) - kMaxLockAngle) * springAnimationFactorWithTimeElapsed (1 / 2)"
    using sampleAnimator_delivers [OF sU(2), of 0 "1 / 2"]
    by (simp add: sU transformWithRotation_rotation)
  have stored: "initialRotationWhenUnlocking (unLock (1 / 2) (sampleAnimator 0 (1 / 2) sU))
      = kMaxLockAngle"
    using sampleAnimator_keeps [of 0 "1 / 2" sU] by (simp add: unLock_def sU)
  have "- (pi / 2) - kMaxLockAngle < 0"
    using pi_ge_two by (simp add: kMaxLockAngle_def)
  then have "(- (pi / 2) - kMaxLockAngle) * springAnimationFactorWithTimeElapsed (1 / 2) < 0"
    using spring_half_positive by (rule mult_neg_pos)
  then have part1: "initialRotationWhenUnlocking (unLock (1 / 2) (sampleAnimator 0 (1 / 2) sU))
      \<noteq> rotation (last (delivered (sampleAnimator 0 (1 / 2) sU)))"
    unfolding shown stored by linarith
  define sL where "sL = lock sU"
  have sL: "lockState sL = RCTMotionManagerStateLocked" "motionUpdates sL" "displayLinks sL = [0]"
    using sU by (simp_all add: sL_def lock_def)
  have h1: "lockState sL \<noteq> RCTMotionManagerStateUnlocking" by (simp add: sL)
  have h2: "\<not> isFlatWithGravity tiltLeft" by (simp add: isFlatWithGravity_def tiltLeft_def)
  have over: "run [Start True, Lock, DeviceMotion (Some tiltRight), UnLock 0, Lock,
      DeviceMotion (Some tiltLeft)] exampleManager = motionBlock (Some tiltLeft) sL"
    using split1 [of "[UnLock 0, Lock, DeviceMotion (Some tiltLeft)]"] sL(2)
    by (simp add: run_def sU_def sL_def)
  have before: "run [Start True, Lock, DeviceMotion (Some tiltRight), UnLock 0] exampleManager = sU"
    using split1 [of "[UnLock 0]"] by (simp add: run_def sU_def)
  have "atan2 (lastX (motionBlock (Some tiltLeft) sL)) (lastY (motionBlock (Some tiltLeft) sL)) - pi
      = - (pi / 2) - pi"
    by (simp add: tiltLeft_sample [OF h1] atan2_axes)
  with motionBlock_processed(1) [OF h1 h2]
  have "initialRotationWhenUnlocking (motionBlock (Some tiltLeft) sL) = kMinLockAngle"
    by (simp only: sL three_quarter_turn_locked)
  then have part2: "initialRotationWhenUnlocking (motionBlock (Some tiltLeft) sL)
      \<noteq> initialRotationWhenUnlocking sU"
    by (simp add: sU kMinLockAngle_def kMaxLockAngle_def)
  have part3: "0 \<in> set (displayLinks (motionBlock (Some tiltLeft) sL))"
    using motionBlock_keeps [of "Some tiltLeft" sL] by (simp add: sL)
  from part1 part2 part3 show ?thesis
    unfolding frame again over before by (intro conjI)
qed

text \<open>
  C3, amended. The two angles are stored by the sensor block, not by \<open>unLock\<close>: after any
  run in which a device motion was processed, with \<open>rawRotation\<close> and \<open>displayRotation\<close>
  those of the last such motion, \<open>unLock\<close> sets the state to \<open>Unlocking\<close>, puts a display
  link on the run loop and starts from the initial angle \<open>displayRotation\<close> and the delta
  \<open>rawRotation - displayRotation\<close>. Through the device motions and the frames up to an
  elapsed time of \<open>1\<close> of a window in which no method is called, the state stays \<open>Unlocking\<close>,
  the link stays live and the two angles stay as they are; a frame displays
  \<open>initial + delta * f(elapsed)\<close>; and the frame whose elapsed time exceeds \<open>1\<close> sets the
  state to \<open>Free\<close> and invalidates its link.
\<close>

theorem unLock_uses_last_sample:
  assumes "lastSample es s0 = Some (rawRotation, displayRotation)"
    and "list_all (insideWindow now) ws"
  shows "let s = run es s0;
             s2 = unLock now s;
             s3 = run ws s2;
             s4 = step (DisplayLink (nextLink s) t) s3
         in lockState s2 = RCTMotionManagerStateUnlocking \<and>
            animationStartTime s2 = now \<and>
            animatorSampler s2 = Some (nextLink s) \<and>
            nextLink s \<in> set (displayLinks s2) \<and>
            initialRotationWhenUnlocking s2 = displayRotation \<and>
            rotationDeltaForUnlocking s2 = rawRotation - displayRotation \<and>
            lockState s3 = RCTMotionManagerStateUnlocking \<and>
            nextLink s \<in> set (displayLinks s3) \<and>
            initialRotationWhenUnlocking s3 = displayRotation \<and>
            rotationDeltaForUnlocking s3 = rawRotation - displayRotation \<and>
            initialRotationWhenUnlocking s4 = displayRotation \<and>
            rotationDeltaForUnlocking s4 = rawRotation - displayRotation \<and>
            (updatesHandler s \<longrightarrow>
               last (delivered s4) = transformWithRotation s
                 (displayRotation + (rawRotation - displayRotation)
                    * springAnimationFactorWithTimeElapsed (t - now))) \<and>
            (t - now \<le> 1 \<longrightarrow>
               lockState s4 = RCTMotionManagerStateUnlocking \<and> nextLink s \<in> set (displayLinks s4)) \<and>
            (1 < t - now \<longrightarrow>
               lockState s4 = RCTMotionManagerStateFree \<and> nextLink s \<notin> set (displayLinks s4))"
proof -
  define s where "s = run es s0"
  define s2 where "s2 = unLock now s"
  define s3 where "s3 = run ws s2"
  define s4 where "s4 = step (DisplayLink (nextLink s) t) s3"
  from lastSample_run [of es s0] assms(1)
  have i: "initialRotationWhenUnlocking s = displayRotation"
    and d: "rotationDeltaForUnlocking s = rawRotation - displayRotation"
    by (simp_all add: s_def)
  have b: "lockState s2 = RCTMotionManagerStateUnlocking" "animationStartTime s2 = now"
    "animatorSampler s2 = Some (nextLink s)" "nextLink s \<in> set (displayLinks s2)"
    "initialRotationWhenUnlocking s2 = displayRotation"
    "rotationDeltaForUnlocking s2 = rawRotation - displayRotation"
    using i d by (simp_all add: s2_def unLock_def)
  have h2: "updatesHandler s2 = updatesHandler s"
    by (simp add: s2_def unLock_def)
  have f2: "transformWithRotation s2 r = transformWithRotation s r" for r
    unfolding s2_def by (intro transformWithRotation_frame) (simp_all add: unLock_def)
  from assms(2) b(2) have "list_all (insideWindow (animationStartTime s2)) ws" by simp
  from insideWindow_run [OF b(1) this]
  have w: "s3 = s2\<lparr>delivered := delivered s3\<rparr>" by (simp add: s3_def)
  have c: "lockState s3 = RCTMotionManagerStateUnlocking" "nextLink s \<in> set (displayLinks s3)"
    "initialRotationWhenUnlocking s3 = displayRotation"
    "rotationDeltaForUnlocking s3 = rawRotation - displayRotation"
    "animationStartTime s3 = now" "updatesHandler s3 = updatesHandler s"
    using b h2 by (subst w, simp)+
  have f3: "transformWithRotation s3 r = transformWithRotation s r" for r
    unfolding f2 [symmetric]
    by (intro transformWithRotation_frame) (subst w, simp)+
  have s4: "s4 = sampleAnimator (nextLink s) t s3"
    using c(2) by (simp add: s4_def)
  have e: "initialRotationWhenUnlocking s4 = displayRotation"
    "rotationDeltaForUnlocking s4 = rawRotation - displayRotation"
    using sampleAnimator_keeps [of "nextLink s" t s3] c by (simp_all add: s4)
  have g: "updatesHandler s \<longrightarrow>
      last (delivered s4) = transformWithRotation s
        (displayRotation + (rawRotation - displayRotation)
           * springAnimationFactorWithTimeElapsed (t - now))"
    using sampleAnimator_delivers [of s3 "nextLink s" t] c by (simp add: s4 f3)
  have h: "t - now \<le> 1 \<longrightarrow>
      lockState s4 = RCTMotionManagerStateUnlocking \<and> nextLink s \<in> set (displayLinks s4)"
    using sampleAnimator_within [of t s3 "nextLink s"] c by (simp add: s4)
  have j: "1 < t - now \<longrightarrow>
      lockState s4 = RCTMotionManagerStateFree \<and> nextLink s \<notin> set (displayLinks s4)"
    using sampleAnimator_finished [of t s3 "nextLink s"] c by (simp add: s4)
  from b c(1-4) e g h j show ?thesis
    unfolding Let_def s_def [symmetric] s2_def [symmetric] s3_def [symmetric] s4_def [symmetric]
    by (intro conjI)
qed

theorem unLock_uses_last_sample_witness:
  "lastSample [Start True, Lock, DeviceMotion (Some tiltRight)] exampleManager
     = Some (- (pi / 2), kMaxLockAngle) \<and>
   list_all (insideWindow 0) [DeviceMotion (Some tiltLeft), DisplayLink 0 (1 / 2)] \<and>
   initialRotationWhenUnlocking
       (run [DeviceMotion (Some tiltLeft), DisplayLink 0 (1 / 2)]
          (unLock 0 (run [Start True, Lock, DeviceMotion (Some tiltRight)] exampleManager)))
     = kMaxLockAngle \<and>
   rotationDeltaForUnlocking
       (run [DeviceMotion (Some tiltLeft), DisplayLink 0 (1 / 2)]
          (unLock 0 (run [Start True, Lock, DeviceMotion (Some tiltRight)] exampleManager)))
     = - (pi / 2) - kMaxLockAngle \<and>
   lockState
       (step (DisplayLink 0 (3 / 2))
          (run [DeviceMotion (Some tiltLeft), DisplayLink 0 (1 / 2)]
             (unLock 0 (run [Start True, Lock, DeviceMotion (Some tiltRight)] exampleManager))))
     = RCTMotionManagerStateFree \<and>
   0 \<notin> set (displayLinks
       (step (DisplayLink 0 (3 / 2))
          (run [DeviceMotion (Some tiltLeft), DisplayLink 0 (1 / 2)]
             (unLock 0 (run [Start True, Lock, DeviceMotion (Some tiltRight)] exampleManager)))))"
proof -
  define s where "s = lock (startDeviceMotionUpdatesWithHandler True exampleManager)"
  have st: "lockState s = RCTMotionManagerStateLocked" "motionUpdates s"
    by (simp_all add: s_def example_defs method_defs)
  have h1: "lockState s \<noteq> RCTMotionManagerStateUnlocking" by (simp add: st)
  have h2: "\<not> isFlatWithGravity tiltRight" by (simp add: isFlatWithGravity_def tiltRight_def)
  have raw: "rawRotationOf (motionBlock (Some tiltRight) s) = - (pi / 2)"
    by (simp add: rawRotationOf_def tiltRight_sample [OF h1] atan2_axes)
  have proc: "sampleProcessed (DeviceMotion (Some tiltRight)) s"
    by (simp add: sampleProcessed_def st h2)
  have hyp1: "lastSample [Start True, Lock, DeviceMotion (Some tiltRight)] exampleManager
      = Some (- (pi / 2), kMaxLockAngle)"
    using proc raw st by (simp add: s_def [symmetric] quarter_turn_locked)
  have hyp2: "list_all (insideWindow 0) [DeviceMotion (Some tiltLeft), DisplayLink 0 (1 / 2)]"
    by simp
  have n: "nextLink (run [Start True, Lock, DeviceMotion (Some tiltRight)] exampleManager) = 0"
    using lockedManager_tiltRight by simp
  from unLock_uses_last_sample [OF hyp1 hyp2, of "3 / 2"] hyp1 hyp2
  show ?thesis by (simp add: Let_def n del: step.simps lastSample.simps)
qed

subsection \<open>C4: the spring curve\<close>

text \<open>
  C4. The easing factor is \<open>f(t) = -2^(-6t)/2 * (-2 * 2^(6t) + sin(12t) + 2 * cos(12t))\<close>;
  \<open>f(0) = 0\<close>; and on the interval \<open>[0.3, 1.0]\<close> the factor stays within \<open>1/3\<close> of \<open>1\<close>.
\<close>

theorem spring_factor_formula_and_window:
  "springAnimationFactorWithTimeElapsed t =
     - (2 powr (- 6 * t)) / 2 * (- 2 * 2 powr (6 * t) + sin (12 * t) + 2 * cos (12 * t)) \<and>
   springAnimationFactorWithTimeElapsed 0 = 0 \<and>
   (3 / 10 \<le> t \<and> t \<le> 1 \<longrightarrow> \<bar>springAnimationFactorWithTimeElapsed t - 1\<bar> \<le> 1 / 3)"
  using spring_window [of t]
  by (simp add: springAnimationFactorWithTimeElapsed_def exp2_def)

theorem spring_factor_formula_and_window_witness:
  "(3 / 10 :: real) \<le> 1 / 2 \<and> (1 / 2 :: real) \<le> 1 \<and>
   \<bar>springAnimationFactorWithTimeElapsed (1 / 2) - 1\<bar> \<le> 1 / 3"
proof -
  have window: "(3 / 10 :: real) \<le> 1 / 2 \<and> (1 / 2 :: real) \<le> 1" by simp
  with spring_factor_formula_and_window [of "1 / 2"] show ?thesis by blast
qed

subsection \<open>C5: the flat guard\<close>

text \<open>
  C5. A device motion whose gravity has \<open>|x| < 0.2\<close> and \<open>|y| < 0.2\<close> is discarded: the
  manager and its surroundings are the same after the block as before it, so the smoothed
  pair is unchanged, no angle is computed or stored, the frameless counter records nothing
  and the handler is not called.
\<close>

theorem flat_sample_discarded:
  "\<bar>gravity_x g\<bar> < 0.2 \<Longrightarrow> \<bar>gravity_y g\<bar> < 0.2 \<Longrightarrow>
     motionBlock (Some g) s = s \<and> step (DeviceMotion (Some g)) s = s \<and>
     lastX (motionBlock (Some g) s) = lastX s \<and> lastY (motionBlock (Some g) s) = lastY s \<and>
     initialRotationWhenUnlocking (motionBlock (Some g) s) = initialRotationWhenUnlocking s \<and>
     rotationDeltaForUnlocking (motionBlock (Some g) s) = rotationDeltaForUnlocking s \<and>
     framelessCounter (motionBlock (Some g) s) = framelessCounter s \<and>
     delivered (motionBlock (Some g) s) = delivered s"
  by (simp add: motionBlock_def isFlatWithGravity_def)

theorem flat_sample_discarded_witness:
  "\<bar>gravity_x lyingFlat\<bar> < 0.2 \<and> \<bar>gravity_y lyingFlat\<bar> < 0.2 \<and>
   step (DeviceMotion (Some lyingFlat)) (startDeviceMotionUpdatesWithHandler True exampleManager)
     = startDeviceMotionUpdatesWithHandler True exampleManager \<and>
   delivered (motionBlock (Some lyingFlat) (startDeviceMotionUpdatesWithHandler True exampleManager))
     = []"
  using flat_sample_discarded [of lyingFlat "startDeviceMotionUpdatesWithHandler True exampleManager"]
  by (simp add: example_defs startDeviceMotionUpdatesWithHandler_def)

subsection \<open>C6: device motions during the unlock window\<close>

text \<open>
  C6, as stated, says that a device motion arriving in state \<open>Unlocking\<close> still updates the
  smoothed pair. It does not: after \<open>start\<close> and \<open>unLock\<close> the smoothed \<open>x\<close> is \<open>-1\<close>, the
  sample \<open>tiltRight\<close> has decay \<open>1\<close> and would make it \<open>1\<close>, and it stays \<open>-1\<close>.
\<close>

theorem unlocking_tick_smoother_counterexample:
  "lastX (run [Start True, UnLock 0, DeviceMotion (Some tiltRight)] exampleManager)
     \<noteq> gravity_x tiltRight * decay tiltRight
         + lastX (run [Start True, UnLock 0] exampleManager) * (1 - decay tiltRight)"
  by (simp add: method_defs motionBlock_def decay_def minDecay_def tiltRight_def)

text \<open>
  C6, amended. A device motion that arrives in state \<open>Unlocking\<close> is discarded before the
  flat guard: the manager is the same afterwards, so the motion drives no displayed angle
  and updates neither the smoothed pair nor the stored angles; the same holds of any number
  of device motions. Hence through the device motions and the frames of a window in which
  no method is called the state stays \<open>Unlocking\<close> and the smoothed pair stays the one from
  before \<open>unLock\<close>, and it is still that one after the frame that ends the window.
\<close>

theorem unlocking_tick_discarded:
  "lockState s = RCTMotionManagerStateUnlocking \<Longrightarrow>
     motionBlock m s = s \<and> step (DeviceMotion m) s = s \<and>
     lastX (motionBlock m s) = lastX s \<and> lastY (motionBlock m s) = lastY s \<and>
     initialRotationWhenUnlocking (motionBlock m s) = initialRotationWhenUnlocking s \<and>
     rotationDeltaForUnlocking (motionBlock m s) = rotationDeltaForUnlocking s \<and>
     delivered (motionBlock m s) = delivered s \<and>
     run (map DeviceMotion ms) s = s \<and>
     (list_all (insideWindow (animationStartTime s)) ws \<longrightarrow>
        lockState (run ws s) = RCTMotionManagerStateUnlocking \<and>
        lastX (run ws s) = lastX s \<and> lastY (run ws s) = lastY s \<and>
        lastX (step (DisplayLink k t) (run ws s)) = lastX s \<and>
        lastY (step (DisplayLink k t) (run ws s)) = lastY s)"
proof -
  assume u: "lockState s = RCTMotionManagerStateUnlocking"
  have one: "motionBlock m s = s" by (simp add: motionBlock_unlocking u)
  have many: "run (map DeviceMotion ms) s = s" by (rule run_motions_unlocking [OF u])
  have window: "lockState (run ws s) = RCTMotionManagerStateUnlocking \<and>
      lastX (run ws s) = lastX s \<and> lastY (run ws s) = lastY s"
    if "list_all (insideWindow (animationStartTime s)) ws"
    by (subst insideWindow_run [OF u that], simp add: u)+
  from one many window step_DisplayLink_keeps [of k t "run ws s"] show ?thesis
    by simp
qed

theorem unlocking_tick_discarded_witness:
  "lockState (unLock 0 (startDeviceMotionUpdatesWithHandler True exampleManager))
     = RCTMotionManagerStateUnlocking \<and>
   list_all (insideWindow (animationStartTime (unLock 0 (startDeviceMotionUpdatesWithHandler True exampleManager))))
     [DeviceMotion (Some tiltRight), DisplayLink 0 (1 / 2)] \<and>
   step (DeviceMotion (Some tiltRight)) (unLock 0 (startDeviceMotionUpdatesWithHandler True exampleManager))
     = unLock 0 (startDeviceMotionUpdatesWithHandler True exampleManager) \<and>
   lastX (motionBlock (Some tiltRight) (unLock 0 (startDeviceMotionUpdatesWithHandler True exampleManager)))
     = - 1 \<and>
   lastX (step (DisplayLink 0 (3 / 2))
       (run [DeviceMotion (Some tiltRight), DisplayLink 0 (1 / 2)]
          (unLock 0 (startDeviceMotionUpdatesWithHandler True exampleManager)))) = - 1 \<and>
   lastY (step (DisplayLink 0 (3 / 2))
       (run [DeviceMotion (Some tiltRight), DisplayLink 0 (1 / 2)]
          (unLock 0 (startDeviceMotionUpdatesWithHandler True exampleManager)))) = - 1"
proof -
  define s where "s = unLock 0 (startDeviceMotionUpdatesWithHandler True exampleManager)"
  have u: "lockState s = RCTMotionManagerStateUnlocking"
    by (simp add: s_def unLock_def)
  have x: "lastX s = - 1" "lastY s = - 1" "animationStartTime s = 0"
    by (simp_all add: s_def method_defs)
  have w: "list_all (insideWindow (animationStartTime s))
      [DeviceMotion (Some tiltRight), DisplayLink 0 (1 / 2)]"
    by (simp add: x)
  from unlocking_tick_discarded [OF u, of "Some tiltRight" "[]"
      "[DeviceMotion (Some tiltRight), DisplayLink 0 (1 / 2)]" 0 "3 / 2"] u w x(1,2)
  show ?thesis unfolding s_def [symmetric] by (simp del: step.simps)
qed

subsection \<open>C7: what stop halts\<close>

text \<open>
  C7, as stated, says that no transform is delivered after \<open>stopDeviceMotionUpdates\<close>. With
  an unlock animation in flight one is: after \<open>start\<close>, a sample, \<open>unLock\<close> at time \<open>0\<close> and
  \<open>stop\<close>, the frame of display link \<open>0\<close> at time \<open>1/2\<close> calls the handler.
\<close>

theorem animation_fires_after_stop_counterexample:
  "delivered (run [Start True, DeviceMotion (Some tiltRight), UnLock 0, Stop, DisplayLink 0 (1 / 2)]
       exampleManager)
     \<noteq> delivered (run [Start True, DeviceMotion (Some tiltRight), UnLock 0, Stop] exampleManager)"
proof -
  define s where "s = run [Start True, DeviceMotion (Some tiltRight), UnLock 0, Stop] exampleManager"
  have st: "displayLinks s = [0]" "updatesHandler s"
    by (simp_all add: s_def example_defs method_defs motionBlock_def Let_def
          isFlatWithGravity_def)
  have "run [Start True, DeviceMotion (Some tiltRight), UnLock 0, Stop, DisplayLink 0 (1 / 2)]
      exampleManager = sampleAnimator 0 (1 / 2) s"
    using st(1) unfolding s_def run_def by simp
  then show ?thesis
    unfolding s_def [symmetric] using sampleAnimator_delivers [OF st(2), of 0 "1 / 2"] by simp
qed

text \<open>
  C7, amended. \<open>stopDeviceMotionUpdates\<close> turns the sensor delivery off, and no device motion
  changes anything afterwards (no transform is delivered by one); it leaves the display
  links and the lock state alone. A display link that was live at the stop still calls the
  handler, with the transform of the animation, on each of its frames, and is invalidated by
  its own frame whose elapsed time exceeds \<open>1\<close>.
\<close>

theorem stop_halts_sensor_only:
  "motionUpdates (stopDeviceMotionUpdates s) = False \<and>
   run (map DeviceMotion ms) (stopDeviceMotionUpdates s) = stopDeviceMotionUpdates s \<and>
   displayLinks (stopDeviceMotionUpdates s) = displayLinks s \<and>
   lockState (stopDeviceMotionUpdates s) = lockState s \<and>
   (k \<in> set (displayLinks s) \<and> updatesHandler s \<longrightarrow>
      delivered (step (DisplayLink k now) (stopDeviceMotionUpdates s)) =
        delivered s @ [transformWithRotation s
          (initialRotationWhenUnlocking s + rotationDeltaForUnlocking s
             * springAnimationFactorWithTimeElapsed (now - animationStartTime s))]) \<and>
   (k \<in> set (displayLinks s) \<and> 1 < now - animationStartTime s \<longrightarrow>
      k \<notin> set (displayLinks (step (DisplayLink k now) (stopDeviceMotionUpdates s))))"
proof -
  let ?s = "stopDeviceMotionUpdates s"
  have off: "\<not> motionUpdates ?s" by (simp add: stopDeviceMotionUpdates_def)
  have same: "displayLinks ?s = displayLinks s" "lockState ?s = lockState s"
    "updatesHandler ?s = updatesHandler s" "delivered ?s = delivered s"
    "initialRotationWhenUnlocking ?s = initialRotationWhenUnlocking s"
    "rotationDeltaForUnlocking ?s = rotationDeltaForUnlocking s"
    "animationStartTime ?s = animationStartTime s"
    by (simp_all add: stopDeviceMotionUpdates_def)
  have tr: "transformWithRotation ?s r = transformWithRotation s r" for r
    by (intro transformWithRotation_frame) (simp_all add: stopDeviceMotionUpdates_def)
  have fire: "k \<in> set (displayLinks s) \<and> updatesHandler s \<longrightarrow>
      delivered (step (DisplayLink k now) ?s) =
        delivered s @ [transformWithRotation s
          (initialRotationWhenUnlocking s + rotationDeltaForUnlocking s
             * springAnimationFactorWithTimeElapsed (now - animationStartTime s))]"
    using sampleAnimator_delivers [of ?s k now] by (simp add: same tr)
  have fin: "k \<in> set (displayLinks s) \<and> 1 < now - animationStartTime s \<longrightarrow>
      k \<notin> set (displayLinks (step (DisplayLink k now) ?s))"
    using sampleAnimator_finished [of now ?s k] by (simp add: same)
  from off run_motions_stopped [OF off, of ms] same(1,2) fire fin show ?thesis
    by (intro conjI) simp_all
qed

theorem stop_halts_sensor_only_witness:
  "0 \<in> set (displayLinks (unLock 0 (startDeviceMotionUpdatesWithHandler True exampleManager))) \<and>
   updatesHandler (unLock 0 (startDeviceMotionUpdatesWithHandler True exampleManager)) \<and>
   (1 :: real) < 3 / 2 - animationStartTime (unLock 0 (startDeviceMotionUpdatesWithHandler True exampleManager)) \<and>
   run (map DeviceMotion [Some tiltRight, Some tiltLeft])
       (stopDeviceMotionUpdates (unLock 0 (startDeviceMotionUpdatesWithHandler True exampleManager)))
     = stopDeviceMotionUpdates (unLock 0 (startDeviceMotionUpdatesWithHandler True exampleManager)) \<and>
   length (delivered (step (DisplayLink 0 (3 / 2))
       (stopDeviceMotionUpdates (unLock 0 (startDeviceMotionUpdatesWithHandler True exampleManager)))))
     = 1 \<and>
   0 \<notin> set (displayLinks (step (DisplayLink 0 (3 / 2))
       (stopDeviceMotionUpdates (unLock 0 (startDeviceMotionUpdatesWithHandler True exampleManager)))))"
proof -
  define s where "s = unLock 0 (startDeviceMotionUpdatesWithHandler True exampleManager)"
  have st: "displayLinks s = [0]" "updatesHandler s" "animationStartTime s = 0" "delivered s = []"
    by (simp_all add: s_def example_defs method_defs)
  from stop_halts_sensor_only [of s "[Some tiltRight, Some tiltLeft]" 0 "3 / 2"] st
  show ?thesis unfolding s_def [symmetric] by (simp del: step.simps)
qed

subsection \<open>C8: the range of the delivered rotation\<close>




subsection \<open>C9: dimensions that are not positive\<close>

text \<open>
  C9, as stated, makes the builder fail on a zero or negative dimension, as \<open>build_spec\<close>
  does. For a video of width \<open>0\<close> in a view of height \<open>-200\<close> the builder of the source
  returns a transform where \<open>build_spec\<close> reports \<open>InvalidDimensions\<close>.
\<close>

theorem invalid_dimensions_counterexample:
  "Inr (transformWithRotation (initWithVideoWidth exampleScaler 0 720 390 (- 200)) 0)
     \<noteq> build_spec (initWithVideoWidth exampleScaler 0 720 390 (- 200)) 0"
  by (simp add: build_spec_def initWithVideoWidth_def)

text \<open>
  C9, amended. The builder checks nothing: for all four dimensions, zero and negative ones
  included, it returns the transform whose two scale factors are the calculator's answer for
  these dimensions and the rotation, and whose rotation is the given one. On positive
  dimensions that is what \<open>build_spec\<close> returns.
\<close>

theorem transformWithRotation_unchecked:
  "transformWithRotation (initWithVideoWidth sc videoW videoH viewW viewH) rot
     = \<lparr>scaleX = sc viewW viewH videoW videoH rot,
        scaleY = sc viewW viewH videoW videoH rot,
        rotation = rot\<rparr> \<and>
   (0 < viewW \<and> 0 < viewH \<and> 0 < videoW \<and> 0 < videoH \<longrightarrow>
      build_spec (initWithVideoWidth sc videoW videoH viewW viewH) rot
        = Inr (transformWithRotation (initWithVideoWidth sc videoW videoH viewW viewH) rot))"
  by (simp add: build_spec_def transformWithRotation_def initWithVideoWidth_def Let_def
        CGAffineTransformMakeScale_def CGAffineTransformRotate_def)

theorem transformWithRotation_unchecked_witness:
  "(0 :: real) < 390 \<and> (0 :: real) < 200 \<and> (0 :: real) < 1280 \<and> (0 :: real) < 720 \<and>
   build_spec exampleManager 0 = Inr \<lparr>scaleX = 1, scaleY = 1, rotation = 0\<rparr>"
  using transformWithRotation_unchecked [of exampleScaler 1280 720 390 200 0]
  by (simp add: exampleManager_def exampleScaler_def)

subsection \<open>C10: a lock during the unlock window\<close>

text \<open>
  C10. In state \<open>Unlocking\<close> with a live display link \<open>k\<close>, \<open>lock\<close> sets the state to
  \<open>Locked\<close> at once and leaves the display links alone. Through any events that are neither
  an \<open>unLock\<close> nor a frame past the window the state stays \<open>Locked\<close> and the link stays live;
  the first frame of \<open>k\<close> whose elapsed time exceeds \<open>1\<close> then sets the state to \<open>Free\<close>.
\<close>

theorem lock_during_unlocking_lost:
  assumes "lockState s = RCTMotionManagerStateUnlocking"
    and "k \<in> set (displayLinks s)"
    and "list_all (keepsAnimation (animationStartTime s)) es"
    and "1 < now - animationStartTime s"
  shows "lockState (lock s) = RCTMotionManagerStateLocked \<and>
         displayLinks (lock s) = displayLinks s \<and>
         lockState (run es (lock s)) = RCTMotionManagerStateLocked \<and>
         k \<in> set (displayLinks (run es (lock s))) \<and>
         lockState (step (DisplayLink k now) (run es (lock s))) = RCTMotionManagerStateFree \<and>
         lockState (run (es @ [DisplayLink k now]) (lock s)) = RCTMotionManagerStateFree"
proof -
  have l: "lockState (lock s) = RCTMotionManagerStateLocked" "displayLinks (lock s) = displayLinks s"
    "animationStartTime (lock s) = animationStartTime s"
    by (simp_all add: lock_def)
  from assms(3) have "list_all (keepsAnimation (animationStartTime (lock s))) es"
    by (simp add: l)
  note r = keepsAnimation_run [OF this l(1)]
  from r assms(2) have k: "k \<in> set (displayLinks (run es (lock s)))" by (simp add: l)
  from r assms(4) have "1 < now - animationStartTime (run es (lock s))" by (simp add: l)
  from sampleAnimator_finished [OF this, of k] k
  have f: "lockState (step (DisplayLink k now) (run es (lock s))) = RCTMotionManagerStateFree"
    by simp
  then have "lockState (run (es @ [DisplayLink k now]) (lock s)) = RCTMotionManagerStateFree"
    by (simp add: run_def)
  with l r k f show ?thesis by simp
qed

theorem lock_during_unlocking_lost_witness:
  "lockState (unLock 0 (startDeviceMotionUpdatesWithHandler True exampleManager))
     = RCTMotionManagerStateUnlocking \<and>
   0 \<in> set (displayLinks (unLock 0 (startDeviceMotionUpdatesWithHandler True exampleManager))) \<and>
   list_all (keepsAnimation 0) [DeviceMotion (Some tiltRight), DisplayLink 0 (1 / 2)] \<and>
   lockState (run [DeviceMotion (Some tiltRight), DisplayLink 0 (1 / 2)]
       (lock (unLock 0 (startDeviceMotionUpdatesWithHandler True exampleManager))))
     = RCTMotionManagerStateLocked \<and>
   lockState (run ([DeviceMotion (Some tiltRight), DisplayLink 0 (1 / 2)] @ [DisplayLink 0 (3 / 2)])
       (lock (unLock 0 (startDeviceMotionUpdatesWithHandler True exampleManager))))
     = RCTMotionManagerStateFree"
proof -
  define s where "s = unLock 0 (startDeviceMotionUpdatesWithHandler True exampleManager)"
  have st: "lockState s = RCTMotionManagerStateUnlocking" "displayLinks s = [0]"
    "animationStartTime s = 0"
    by (simp_all add: s_def example_defs method_defs)
  have h2: "0 \<in> set (displayLinks s)" by (simp add: st)
  have h3: "list_all (keepsAnimation (animationStartTime s))
      [DeviceMotion (Some tiltRight), DisplayLink 0 (1 / 2)]"
    by (simp add: st)
  have h4: "1 < 3 / 2 - animationStartTime s" by (simp add: st)
  from lock_during_unlocking_lost [OF st(1) h2 h3 h4] st h2 h3
  show ?thesis unfolding s_def [symmetric] by simp
qed

end
